theory Spec2Isabelle
  imports Complex_Main "HOL-Library.Word"
begin

section \<open>Data model (types/scale)\<close>

text \<open>
  A JavaScript number where the code can produce \<open>NaN\<close>: a finite value or \<open>NaN\<close>. The
  finite values are kept exact (\<open>rat\<close>); rounding of doubles and the infinities are not
  modelled. \<open>undefined\<close> (a missing table entry, a missing optional field) is \<open>None\<close>.
\<close>

datatype number = Num rat | NaN

text \<open>\<open>Partial<NutritionData>\<close>, the per-100 g rows of the nutrition tables, and
  \<open>NutritionData\<close>. Only the numeric fields of the partial record are ever read.\<close>

record PartialNutritionData =
  calories :: "number option"
  protein :: "number option"
  carbs :: "number option"
  fat :: "number option"
  fiber :: "number option"
  sugar :: "number option"
  sodium :: "number option"
  calcium :: "number option"
  iron :: "number option"
  vitaminC :: "number option"

record NutritionData =
  ingredient :: string
  weight :: number
  unit :: string
  calories :: number
  protein :: number
  carbs :: number
  fat :: number
  fiber :: "number option"
  sugar :: "number option"
  sodium :: "number option"
  calcium :: "number option"
  iron :: "number option"
  vitaminC :: "number option"

text \<open>
  \<open>ScaleReading\<close>: the unit is one of six string literals. The weight is a JavaScript
  number; every weight the decoder builds is \<open>n\<close>, \<open>- n\<close>, \<open>n / 10\<close> or \<open>- n / 10\<close> for an
  integer \<open>n < 50000\<close>, and on such values the comparisons \<open>> 0\<close>, \<open><= 5000\<close> and \<open>!==\<close> of
  the double-precision quotients agree with those of the exact quotients, so the weight is
  a \<open>rat\<close>. The timestamp is \<open>Date.now()\<close>, the clock read during the call; the model takes
  it as the argument \<open>now\<close>. From here on \<open>weight\<close> and \<open>unit\<close> are the fields of
  \<open>ScaleReading\<close>.
\<close>

datatype Unit = G | Oz | Lb | Kg | Ml | FlOz

definition unitString :: "Unit \<Rightarrow> string" where
  "unitString u = (case u of G \<Rightarrow> ''g'' | Oz \<Rightarrow> ''oz'' | Lb \<Rightarrow> ''lb'' | Kg \<Rightarrow> ''kg''
                           | Ml \<Rightarrow> ''ml'' | FlOz \<Rightarrow> ''fl oz'')"

record ScaleReading =
  weight :: rat
  unit :: Unit
  isStable :: bool
  timestamp :: nat

section \<open>Frame decoder (scaleUtils: parseScaleData)\<close>

text \<open>
  A notification buffer is a \<open>DataView\<close>; the model keeps the bytes the view covers.
  \<open>getUint8\<close> and \<open>getUint16\<close> raise a \<open>RangeError\<close> when the read would pass the end
  of the view; the model returns \<open>Inl RangeError\<close> there. All indices in the source are
  non-negative integers, so they are \<open>nat\<close>.
\<close>

type_synonym byte = "8 word"
type_synonym DataView = "byte list"

datatype error = RangeError

definition byteLength :: "DataView \<Rightarrow> nat" where
  "byteLength data = length data"

definition getUint8 :: "DataView \<Rightarrow> nat \<Rightarrow> error + nat" where
  "getUint8 data i =
     (if i + 1 \<le> byteLength data then Inr (unat (data ! i)) else Inl RangeError)"

definition getUint16 :: "DataView \<Rightarrow> nat \<Rightarrow> bool \<Rightarrow> error + nat" where
  "getUint16 data i littleEndian =
     (if i + 2 \<le> byteLength data
      then (if littleEndian
            then Inr (unat (data ! i) + 256 * unat (data ! (i + 1)))
            else Inr (256 * unat (data ! i) + unat (data ! (i + 1))))
      else Inl RangeError)"

definition UNIT_MAP :: "nat \<rightharpoonup> Unit" where
  "UNIT_MAP = [0 \<mapsto> G, 1 \<mapsto> Oz, 2 \<mapsto> G, 3 \<mapsto> FlOz, 4 \<mapsto> Ml, 5 \<mapsto> FlOz, 6 \<mapsto> Oz]"

text \<open>\<open>UNIT_MAP[unitCode] || "g"\<close>: every entry is a non-empty string, so the default is
  taken exactly when the code has no entry.\<close>

definition unitOf :: "nat \<Rightarrow> Unit" where
  "unitOf unitCode = (case UNIT_MAP unitCode of Some u \<Rightarrow> u | None \<Rightarrow> G)"

text \<open>Method 1, the block inside its own \<open>try\<close>: \<open>Inl\<close> is the exception the block
  raises, \<open>Inr None\<close> is falling out of the block without returning, \<open>Inr (Some r)\<close> is
  \<open>return r\<close>.\<close>

definition method1 :: "nat \<Rightarrow> DataView \<Rightarrow> error + ScaleReading option" where
  "method1 now data =
     (case getUint8 data 10 of
        Inl e \<Rightarrow> Inl e
      | Inr b10 \<Rightarrow>
     (case getUint16 data 11 True of
        Inl e \<Rightarrow> Inl e
      | Inr rawWeight \<Rightarrow>
     (case (if byteLength data > 14 then getUint8 data 14 else Inr 0) of
        Inl e \<Rightarrow> Inl e
      | Inr unitCode \<Rightarrow>
         (let sign = (if b10 = 0 then 1 else - 1 :: rat);
              isStable = True
          in if rawWeight > 0 \<and> rawWeight < 50000
             then Inr (Some \<lparr> weight = (sign * of_nat rawWeight) / (if unitCode = 2 then 10 else 1),
                              unit = unitOf unitCode,
                              isStable = isStable,
                              timestamp = now \<rparr>)
             else Inr None))))"

text \<open>One iteration of the scan of Method 2, the body of the \<open>try\<close> inside the loop.\<close>

definition method2_at :: "nat \<Rightarrow> DataView \<Rightarrow> nat \<Rightarrow> error + ScaleReading option" where
  "method2_at now data offset =
     (case getUint16 data offset False of
        Inl e \<Rightarrow> Inl e
      | Inr rawWeight \<Rightarrow>
     (case (if offset + 2 < byteLength data then getUint8 data (offset + 2) else Inr 0) of
        Inl e \<Rightarrow> Inl e
      | Inr nextByte \<Rightarrow>
         if rawWeight > 0 \<and> rawWeight < 10000 \<and> nextByte \<le> 6
         then
          (case (if offset > 0 then getUint8 data (offset - 1) else Inr 0) of
             Inl e \<Rightarrow> Inl e
           | Inr prevByte \<Rightarrow>
          (case (if offset + 3 < byteLength data then getUint8 data (offset + 3) else Inr 1) of
             Inl e \<Rightarrow> Inl e
           | Inr stableByte \<Rightarrow>
              (let sign = (if offset > 0 then (if prevByte = 0 then 1 else - 1) else 1 :: rat);
                   unitCode = nextByte;
                   isStable = (if offset + 3 < byteLength data then stableByte = 1 else True);
                   divisor = (if unitCode = 2 \<or> unitCode \<ge> 3 then 10 else 1 :: rat);
                   weight = (sign * of_nat rawWeight) / divisor
               in if weight > 0 \<and> weight \<le> 5000
                  then Inr (Some \<lparr> weight = weight, unit = unitOf unitCode,
                                   isStable = isStable, timestamp = now \<rparr>)
                  else Inr None)))
         else Inr None))"

text \<open>\<open>try { ... } catch (e) { }\<close> around a block that may return: an exception is
  swallowed and control falls through, like a block that did not return.\<close>

definition try_catch :: "error + 'a option \<Rightarrow> 'a option" where
  "try_catch r = (case r of Inl e \<Rightarrow> None | Inr v \<Rightarrow> v)"

text \<open>The loop \<open>for (offset = 0; offset <= byteLength - 4; offset++)\<close>, entered at
  \<open>offset\<close>; \<open>None\<close> is leaving the loop without a return.\<close>

function method2 :: "nat \<Rightarrow> DataView \<Rightarrow> nat \<Rightarrow> ScaleReading option" where
  "method2 now data offset =
     (if offset + 4 \<le> byteLength data
      then (case try_catch (method2_at now data offset) of
              Some r \<Rightarrow> Some r
            | None \<Rightarrow> method2 now data (offset + 1))
      else None)"
  by pat_completeness auto
termination
  by (relation "measure (\<lambda>(now, data, offset). byteLength data - offset)") auto

declare method2.simps [simp del]

text \<open>The body of the outer \<open>try\<close>, then the function. The log lines (among them the hex
  dump built from \<open>data.buffer\<close>) do not touch the result and are left out.\<close>

definition parseScaleData_body :: "nat \<Rightarrow> DataView \<Rightarrow> error + ScaleReading option" where
  "parseScaleData_body now data =
     (if byteLength data = 8 then Inr None
      else if byteLength data = 12
      then (case (if byteLength data \<ge> 12 then try_catch (method1 now data) else None) of
              Some r \<Rightarrow> Inr (Some r)
            | None \<Rightarrow>
               (case method2 now data 0 of
                  Some r \<Rightarrow> Inr (Some r)
                | None \<Rightarrow> Inr None))
      else Inr None)"

definition parseScaleData :: "nat \<Rightarrow> DataView \<Rightarrow> error + ScaleReading option" where
  "parseScaleData now data =
     (if byteLength data < 3 then Inr None
      else (case parseScaleData_body now data of
              Inl e \<Rightarrow> Inr None
            | Inr r \<Rightarrow> Inr r))"

section \<open>Unit conversion and nutrition values (scaleUtils, nutritionApi)\<close>

text \<open>\<open>a * b\<close> on numbers, \<open>x / d\<close> for a non-zero literal \<open>d\<close>, and \<open>Math.round\<close>
  (round half up). A key that a table does not have yields \<open>undefined\<close> (for a name
  inherited from \<open>Object.prototype\<close>, a function or an object), and arithmetic converts
  each of these to \<open>NaN\<close>.\<close>

fun jsTimes :: "number \<Rightarrow> number \<Rightarrow> number" where
  "jsTimes (Num a) (Num b) = Num (a * b)"
| "jsTimes _ _ = NaN"

definition toNumber :: "rat option \<Rightarrow> number" where
  "toNumber v = (case v of Some x \<Rightarrow> Num x | None \<Rightarrow> NaN)"

definition divideBy :: "rat \<Rightarrow> number \<Rightarrow> number" where
  "divideBy d x = (case x of Num a \<Rightarrow> Num (a / d) | NaN \<Rightarrow> NaN)"

definition mathRound :: "number \<Rightarrow> number" where
  "mathRound x = (case x of Num a \<Rightarrow> Num (of_int \<lfloor>a + 1 / 2\<rfloor>) | NaN \<Rightarrow> NaN)"

definition toGrams :: "string \<rightharpoonup> rat" where
  "toGrams = [''g'' \<mapsto> 1, ''oz'' \<mapsto> 283495 / 10000, ''lb'' \<mapsto> 453592 / 1000, ''kg'' \<mapsto> 1000]"

definition fromGrams :: "string \<rightharpoonup> rat" where
  "fromGrams = [''g'' \<mapsto> 1, ''oz'' \<mapsto> 1 / (283495 / 10000), ''lb'' \<mapsto> 1 / (453592 / 1000),
                ''kg'' \<mapsto> 1 / 1000]"

definition convertWeight :: "number \<Rightarrow> string \<Rightarrow> string \<Rightarrow> number" where
  "convertWeight w fromUnit toUnit =
     (if fromUnit = toUnit then w
      else (let grams = jsTimes w (toNumber (toGrams fromUnit))
            in jsTimes grams (toNumber (fromGrams toUnit))))"

text \<open>\<open>v || 0\<close> and the truthiness test \<open>v ? ... : undefined\<close> on an optional number:
  \<open>undefined\<close>, \<open>0\<close> and \<open>NaN\<close> are falsy.\<close>

definition orZero :: "number option \<Rightarrow> number" where
  "orZero v = (case v of Some (Num a) \<Rightarrow> Num a | _ \<Rightarrow> Num 0)"

definition truthy :: "number option \<Rightarrow> bool" where
  "truthy v = (case v of Some (Num a) \<Rightarrow> a \<noteq> 0 | _ \<Rightarrow> False)"

text \<open>\<open>Math.round(v * factor * 10) / 10\<close>, and the same under the truthiness test.\<close>

definition scaled :: "number \<Rightarrow> number \<Rightarrow> number" where
  "scaled v factor = divideBy 10 (mathRound (jsTimes (jsTimes v factor) (Num 10)))"

definition scaledOpt :: "number option \<Rightarrow> number \<Rightarrow> number option" where
  "scaledOpt v factor =
     (case v of
        Some x \<Rightarrow> (if truthy v then Some (scaled x factor) else None)
      | None \<Rightarrow> None)"

definition calculateNutritionForWeight ::
    "PartialNutritionData \<Rightarrow> string \<Rightarrow> number \<Rightarrow> NutritionData" where
  "calculateNutritionForWeight baseData ingredientName weightInGrams =
     (let factor = divideBy 100 weightInGrams
      in \<lparr> ingredient = ingredientName,
           weight = weightInGrams,
           unit = ''g'',
           calories = mathRound (jsTimes (orZero (PartialNutritionData.calories baseData)) factor),
           protein = scaled (orZero (PartialNutritionData.protein baseData)) factor,
           carbs = scaled (orZero (PartialNutritionData.carbs baseData)) factor,
           fat = scaled (orZero (PartialNutritionData.fat baseData)) factor,
           fiber = scaledOpt (PartialNutritionData.fiber baseData) factor,
           sugar = scaledOpt (PartialNutritionData.sugar baseData) factor,
           sodium = scaledOpt (PartialNutritionData.sodium baseData) factor,
           calcium = scaledOpt (PartialNutritionData.calcium baseData) factor,
           iron = scaledOpt (PartialNutritionData.iron baseData) factor,
           vitaminC = scaledOpt (PartialNutritionData.vitaminC baseData) factor \<rparr>)"

text \<open>
  \<open>getNutritionData\<close>: \<open>fetchUSDANutrition\<close> always resolves to \<open>null\<close>, so the row is the
  one \<open>getMockNutritionData\<close> picks by matching the ingredient name; which row it picks
  plays no part below, and the lookup is the argument \<open>getMockNutritionData\<close>. The value
  is that of the returned promise.
\<close>

definition getNutritionData ::
    "(string \<Rightarrow> PartialNutritionData) \<Rightarrow> string \<Rightarrow> number \<Rightarrow> string \<Rightarrow> NutritionData" where
  "getNutritionData getMockNutritionData ingredientName w u =
     (let weightInGrams = convertWeight w u ''g'';
          mockData = getMockNutritionData ingredientName
      in calculateNutritionForWeight mockData ingredientName weightInGrams)"

section \<open>The ScaleConnector component\<close>

text \<open>
  The component's state is the six \<open>useState\<close> cells. Everything outside React is the
  \<open>World\<close>: whether \<open>device.gatt.connected\<close> holds, the listeners registered for
  \<open>characteristicvaluechanged\<close>, the calls made on the Bluetooth objects in order, and the
  readings handed to \<open>onStableReading\<close>.

  A function declared in the component body is created anew in each render and closes
  over that render's state. \<open>handleCharacteristicValueChanged\<close> reads only
  \<open>lastStableReading\<close> (its \<open>useCallback\<close> dependency), so a closure of it is identified by
  the \<open>lastStableReading\<close> it captured, and that is how a registered listener is recorded.
\<close>

type_synonym BluetoothDevice = nat
type_synonym BluetoothRemoteGATTCharacteristic = nat

datatype ConnectionState = Disconnected | Connecting | Connected | ErrorState

record ScaleConnector =
  connectionState :: ConnectionState
  device :: "BluetoothDevice option"
  characteristic :: "BluetoothRemoteGATTCharacteristic option"
  currentReading :: "ScaleReading option"
  error :: "string option"
  lastStableReading :: "ScaleReading option"

datatype Call =
    RequestDevice | GattConnect | GetPrimaryService | GetCharacteristic | StartNotifications
  | AddValueListener | AddDisconnectListener | RemoveValueListener | GattDisconnect

record World =
  gattConnected :: bool
  listeners :: "ScaleReading option list"
  calls :: "Call list"
  stableReadings :: "ScaleReading list"

definition initialState :: ScaleConnector where
  "initialState = \<lparr> connectionState = Disconnected, device = None, characteristic = None,
                      currentReading = None, error = None, lastStableReading = None \<rparr>"

text \<open>The block \<open>if (reading) { ... }\<close> of the handler, for the closure that captured
  \<open>captured\<close> as its \<open>lastStableReading\<close>.\<close>

definition observe ::
    "ScaleReading option \<Rightarrow> ScaleReading \<Rightarrow> ScaleConnector \<times> World \<Rightarrow> ScaleConnector \<times> World" where
  "observe captured reading sw =
     (let s1 = (fst sw)\<lparr>currentReading := Some reading\<rparr>
      in if isStable reading \<and>
            (case captured of
               None \<Rightarrow> True
             | Some l \<Rightarrow> weight l \<noteq> weight reading \<or> unit l \<noteq> unit reading)
         then (s1\<lparr>lastStableReading := Some reading\<rparr>,
               (snd sw)\<lparr>stableReadings := stableReadings (snd sw) @ [reading]\<rparr>)
         else (s1, snd sw))"

text \<open>The handler; \<open>value\<close> is \<open>characteristic.value\<close>, which may be undefined. An
  exception of \<open>parseScaleData\<close> would leave the handler before any update.\<close>

definition handleCharacteristicValueChanged ::
    "ScaleReading option \<Rightarrow> nat \<Rightarrow> DataView option \<Rightarrow> ScaleConnector \<times> World
       \<Rightarrow> ScaleConnector \<times> World" where
  "handleCharacteristicValueChanged captured now val sw =
     (case val of
        None \<Rightarrow> sw
      | Some data \<Rightarrow>
         (case parseScaleData now data of
            Inl e \<Rightarrow> sw
          | Inr None \<Rightarrow> sw
          | Inr (Some reading) \<Rightarrow> observe captured reading sw))"

text \<open>A notification runs the registered listeners in order of registration.\<close>

definition characteristicvaluechanged ::
    "nat \<Rightarrow> DataView option \<Rightarrow> ScaleConnector \<times> World \<Rightarrow> ScaleConnector \<times> World" where
  "characteristicvaluechanged now val sw =
     fold (\<lambda>captured. handleCharacteristicValueChanged captured now val) (listeners (snd sw)) sw"

text \<open>
  What the transport answers to one connection attempt: each awaited promise resolves,
  rejects (with the message when the reason is an \<open>Error\<close>) or stays pending.
\<close>

datatype 'a promise = Resolved 'a | Rejected "string option" | Pending

record Transport =
  bluetoothSupported :: bool
  requestDevice :: "BluetoothDevice promise"
  gattConnect :: "unit promise"
  getPrimaryService :: "unit promise"
  getCharacteristic :: "BluetoothRemoteGATTCharacteristic promise"
  startNotifications :: "unit promise"

text \<open>The \<open>catch\<close> block of \<open>connectToScaleDevice\<close>.\<close>

definition connectFailed :: "string option \<Rightarrow> ScaleConnector \<Rightarrow> ScaleConnector" where
  "connectFailed msg s =
     s\<lparr>error := Some (case msg of Some m \<Rightarrow> m | None \<Rightarrow> ''Failed to connect to scale''),
       connectionState := ErrorState\<rparr>"

definition called :: "Call \<Rightarrow> World \<Rightarrow> World" where
  "called c w = w\<lparr>calls := calls w @ [c]\<rparr>"

text \<open>\<open>addEventListener\<close> ignores a listener that is already registered.\<close>

definition addEventListener :: "ScaleReading option \<Rightarrow> World \<Rightarrow> World" where
  "addEventListener h w =
     (called AddValueListener w)
       \<lparr>listeners := (if h \<in> set (listeners w) then listeners w else listeners w @ [h])\<rparr>"

definition removeEventListener :: "ScaleReading option \<Rightarrow> World \<Rightarrow> World" where
  "removeEventListener h w = (called RemoveValueListener w)\<lparr>listeners := removeAll h (listeners w)\<rparr>"

text \<open>
  \<open>connectToScaleDevice\<close> of the render with state \<open>fst sw\<close>, run until it ends or waits on
  a promise that stays pending. \<open>requestScaleDevice\<close> checks \<open>isBluetoothSupported()\<close> again,
  which holds on that path. The listener it registers is the handler of its own render.
\<close>

definition connectToScaleDevice :: "Transport \<Rightarrow> ScaleConnector \<times> World \<Rightarrow> ScaleConnector \<times> World" where
  "connectToScaleDevice t sw =
     (if \<not> bluetoothSupported t
      then ((fst sw)\<lparr>error := Some ''Web Bluetooth is not supported in this browser'',
                    connectionState := ErrorState\<rparr>, snd sw)
      else
       (let s1 = (fst sw)\<lparr>connectionState := Connecting, error := None\<rparr>;
            w1 = called RequestDevice (snd sw)
        in case requestDevice t of
             Pending \<Rightarrow> (s1, w1)
           | Rejected m \<Rightarrow> (connectFailed m s1, w1)
           | Resolved scaleDevice \<Rightarrow>
       (let s2 = s1\<lparr>device := Some scaleDevice\<rparr>;
            w2 = called GattConnect w1
        in case gattConnect t of
             Pending \<Rightarrow> (s2, w2)
           | Rejected m \<Rightarrow> (connectFailed m s2, w2)
           | Resolved _ \<Rightarrow>
       (let w3 = called GetPrimaryService (w2\<lparr>gattConnected := True\<rparr>)
        in case getPrimaryService t of
             Pending \<Rightarrow> (s2, w3)
           | Rejected m \<Rightarrow> (connectFailed m s2, w3)
           | Resolved _ \<Rightarrow>
       (let w4 = called GetCharacteristic w3
        in case getCharacteristic t of
             Pending \<Rightarrow> (s2, w4)
           | Rejected m \<Rightarrow> (connectFailed m s2, w4)
           | Resolved char \<Rightarrow>
       (let s3 = s2\<lparr>characteristic := Some char\<rparr>;
            w5 = called StartNotifications w4
        in case startNotifications t of
             Pending \<Rightarrow> (s3, w5)
           | Rejected m \<Rightarrow> (connectFailed m s3, w5)
           | Resolved _ \<Rightarrow>
              (s3\<lparr>connectionState := Connected\<rparr>,
               called AddDisconnectListener
                 (addEventListener (lastStableReading (fst sw)) w5))))))))"

text \<open>The listener for \<open>gattserverdisconnected\<close>: it only sets state.\<close>

definition gattserverdisconnected :: "ScaleConnector \<Rightarrow> ScaleConnector" where
  "gattserverdisconnected s =
     s\<lparr>connectionState := Disconnected, device := None, characteristic := None,
       currentReading := None\<rparr>"

text \<open>\<open>disconnect\<close> of the render with state \<open>fst sw\<close>; \<open>device?.gatt?.connected\<close> is read
  from the device object, that is from the world.\<close>

definition disconnect :: "ScaleConnector \<times> World \<Rightarrow> ScaleConnector \<times> World" where
  "disconnect sw =
     (let s = fst sw;
          w1 = (if characteristic s \<noteq> None
                then removeEventListener (lastStableReading s) (snd sw) else snd sw);
          w2 = (if device s \<noteq> None \<and> gattConnected w1
                then called GattDisconnect (w1\<lparr>gattConnected := False\<rparr>) else w1)
      in (s\<lparr>connectionState := Disconnected, device := None, characteristic := None,
            currentReading := None, error := None\<rparr>, w2))"

text \<open>The button: disabled while connecting, \<open>disconnect\<close> while connected, otherwise
  \<open>connectToScaleDevice\<close>; always the functions of the latest render.\<close>

definition onClick :: "Transport \<Rightarrow> ScaleConnector \<times> World \<Rightarrow> ScaleConnector \<times> World" where
  "onClick t sw =
     (if connectionState (fst sw) = Connecting then sw
      else if connectionState (fst sw) = Connected then disconnect sw
      else connectToScaleDevice t sw)"

text \<open>The events the component reacts to: a click on the button (with the transport's
  answers, should it start a connection attempt), a notification of the characteristic,
  and the loss of the link.\<close>

datatype Event = Click Transport | Notification nat "DataView option" | LinkLost

fun step :: "Event \<Rightarrow> ScaleConnector \<times> World \<Rightarrow> ScaleConnector \<times> World" where
  "step (Click t) sw = onClick t sw"
| "step (Notification now val) sw = characteristicvaluechanged now val sw"
| "step LinkLost sw = (gattserverdisconnected (fst sw), (snd sw)\<lparr>gattConnected := False\<rparr>)"

section \<open>Properties of the frame decoder\<close>

subsection \<open>Auxiliary facts\<close>

lemma method1_12: "byteLength data = 12 \<Longrightarrow> method1 now data = Inl RangeError"
  by (simp add: method1_def getUint8_def getUint16_def)

lemma parseScaleData_scan:
  "parseScaleData now data = (if byteLength data = 12 then Inr (method2 now data 0) else Inr None)"
  by (simp add: parseScaleData_def parseScaleData_body_def method1_12 try_catch_def
           split: option.splits)

lemma unitOf_range: "unitOf c \<in> {G, Oz, Ml, FlOz}"
  by (simp add: unitOf_def UNIT_MAP_def)

lemma method2_at_Some_shape:
  assumes "method2_at now data offset = Inr (Some r)"
  shows "\<exists>c. 0 < weight r \<and> weight r \<le> 5000 \<and> unit r = unitOf c \<and> timestamp r = now"
  using assms
  by (auto simp: method2_at_def Let_def split: sum.splits if_splits)

lemma method2_at_Some:
  assumes "method2_at now data offset = Inr (Some r)"
  shows "0 < weight r \<and> weight r \<le> 5000 \<and> unit r \<in> {G, Oz, Ml, FlOz} \<and> timestamp r = now"
proof -
  from method2_at_Some_shape [OF assms] obtain c where
    "0 < weight r" "weight r \<le> 5000" "unit r = unitOf c" "timestamp r = now" by blast
  with unitOf_range [of c] show ?thesis by simp
qed

lemma method2_Some:
  "method2 now data offset = Some r \<Longrightarrow>
     \<exists>k. offset \<le> k \<and> k + 4 \<le> byteLength data \<and> method2_at now data k = Inr (Some r)"
proof (induction now data offset rule: method2.induct)
  case (1 now data offset)
  from "1.prems" have le: "offset + 4 \<le> byteLength data"
    by (subst (asm) method2.simps) (simp split: if_splits)
  show ?case
  proof (cases "try_catch (method2_at now data offset)")
    case None
    with "1.prems" le have "method2 now data (offset + 1) = Some r"
      by (subst (asm) method2.simps) simp
    with "1.IH" [OF le None] obtain k where "offset + 1 \<le> k" "k + 4 \<le> byteLength data"
      "method2_at now data k = Inr (Some r)" by blast
    then show ?thesis by (intro exI [of _ k]) simp
  next
    case (Some a)
    with "1.prems" le have "a = r"
      by (subst (asm) method2.simps) simp
    with Some le show ?thesis
      by (intro exI [of _ offset]) (auto simp: try_catch_def split: sum.splits)
  qed
qed

lemma method2_None:
  "(\<And>k. offset \<le> k \<Longrightarrow> k + 4 \<le> byteLength data \<Longrightarrow> try_catch (method2_at now data k) = None)
     \<Longrightarrow> method2 now data offset = None"
proof (induction now data offset rule: method2.induct)
  case (1 now data offset)
  show ?case
  proof (cases "offset + 4 \<le> byteLength data")
    case False
    then show ?thesis by (subst method2.simps) simp
  next
    case True
    have here: "try_catch (method2_at now data offset) = None"
      using "1.prems" [of offset] True by simp
    have "method2 now data (offset + 1) = None"
      using "1.IH" [OF True here] "1.prems" by simp
    with True here show ?thesis by (subst method2.simps) simp
  qed
qed

lemma method2_at_clock:
  "method2_at now' data k =
     (case method2_at now data k of
        Inl e \<Rightarrow> Inl e
      | Inr None \<Rightarrow> Inr None
      | Inr (Some r) \<Rightarrow> Inr (Some (r\<lparr>timestamp := now'\<rparr>)))"
  by (simp add: method2_at_def Let_def split: sum.splits)

lemma try_catch_clock:
  "try_catch (method2_at now' data k) =
     map_option (\<lambda>r. r\<lparr>timestamp := now'\<rparr>) (try_catch (method2_at now data k))"
  by (subst method2_at_clock [of now' data k now])
     (simp add: try_catch_def split: sum.splits option.splits)

lemma method2_clock:
  "method2 now' data offset = map_option (\<lambda>r. r\<lparr>timestamp := now'\<rparr>) (method2 now data offset)"
proof (induction now data offset rule: method2.induct)
  case (1 now data offset)
  show ?case
  proof (cases "offset + 4 \<le> byteLength data")
    case False
    then show ?thesis by (subst method2.simps, subst (2) method2.simps) simp
  next
    case True
    show ?thesis
    proof (cases "try_catch (method2_at now data offset)")
      case None
      with True "1.IH" show ?thesis
        using try_catch_clock [of now' data offset now]
        by (subst method2.simps, subst (2) method2.simps) simp
    next
      case (Some a)
      with True show ?thesis
        using try_catch_clock [of now' data offset now]
        by (subst method2.simps, subst (2) method2.simps) simp
    qed
  qed
qed

lemma method2_timestamp: "method2 now data offset = Some r \<Longrightarrow> timestamp r = now"
  using method2_Some [of now data offset r] method2_at_Some [of now data _ r] by blast

lemma method2_first:
  "offset \<le> k \<Longrightarrow> k + 4 \<le> byteLength data \<Longrightarrow> method2_at now data k = Inr (Some r) \<Longrightarrow>
   (\<And>j. offset \<le> j \<Longrightarrow> j < k \<Longrightarrow> try_catch (method2_at now data j) = None) \<Longrightarrow>
   method2 now data offset = Some r"
proof (induction now data offset rule: method2.induct)
  case (1 now data offset)
  from "1.prems" have le: "offset + 4 \<le> byteLength data" by simp
  show ?case
  proof (cases "offset = k")
    case True
    with "1.prems" le show ?thesis
      by (subst method2.simps) (simp add: try_catch_def)
  next
    case False
    with "1.prems" have lt: "offset < k" by simp
    then have here: "try_catch (method2_at now data offset) = None"
      using "1.prems"(4) [of offset] by simp
    have "method2 now data (offset + 1) = Some r"
      using "1.IH" [OF le here] "1.prems" lt by simp
    with le here show ?thesis by (subst method2.simps) simp
  qed
qed

lemma method2_at_in_range:
  "k + 4 \<le> byteLength data \<Longrightarrow> \<exists>v. method2_at now data k = Inr v"
  by (simp add: method2_at_def getUint16_def getUint8_def Let_def)

lemma not_Some_try_catch:
  "(\<forall>r. x \<noteq> Inr (Some r)) \<Longrightarrow> try_catch x = None"
  by (auto simp: try_catch_def split: sum.splits)

lemmas decode_eval =
  parseScaleData_scan method2.simps method2_at_def try_catch_def byteLength_def
  getUint8_def getUint16_def unitOf_def UNIT_MAP_def

subsection \<open>Strategy A on a 12-byte frame\<close>

text \<open>
  Claim C1. A 12-byte frame with sign byte \<open>0x00\<close> at offset 10 and the magnitude 1500
  little-endian from offset 11 should decode to 1500 g, and to -1500 g with sign byte
  \<open>0x01\<close>. The magnitude 1500 is \<open>0xDC 0x05\<close>; in a 12-byte view only \<open>0xDC\<close> fits, at
  offset 11, and the 16-bit read there raises. For both sign bytes Method 1 ends in the
  \<open>RangeError\<close> and the decoder returns nothing. The same block run on the 13-byte view
  that holds the whole magnitude gives 1500 g and -1500 g, but a 13-byte frame never
  reaches it.
\<close>

theorem strategyA_12_byte_frame:
  "method1 now [0, 0, 0, 0, 0, 0, 0, 0, 0, 0, 0x00, 0xDC] = Inl RangeError \<and>
   parseScaleData now [0, 0, 0, 0, 0, 0, 0, 0, 0, 0, 0x00, 0xDC] = Inr None \<and>
   method1 now [0, 0, 0, 0, 0, 0, 0, 0, 0, 0, 0x01, 0xDC] = Inl RangeError \<and>
   parseScaleData now [0, 0, 0, 0, 0, 0, 0, 0, 0, 0, 0x01, 0xDC] = Inr None \<and>
   method1 now [0, 0, 0, 0, 0, 0, 0, 0, 0, 0, 0x00, 0xDC, 0x05] =
     Inr (Some \<lparr> weight = 1500, unit = G, isStable = True, timestamp = now \<rparr>) \<and>
   method1 now [0, 0, 0, 0, 0, 0, 0, 0, 0, 0, 0x01, 0xDC, 0x05] =
     Inr (Some \<lparr> weight = - 1500, unit = G, isStable = True, timestamp = now \<rparr>) \<and>
   parseScaleData now [0, 0, 0, 0, 0, 0, 0, 0, 0, 0, 0x00, 0xDC, 0x05] = Inr None"
  by (simp add: decode_eval method1_def)

subsection \<open>No exception leaves the decoder; what it returns instead\<close>

text \<open>
  Claim C2, as the code has it. For every byte sequence and every clock value
  \<open>parseScaleData\<close> returns a reading or nothing, never an exception: on a 12-byte frame
  Method 1 does raise its \<open>RangeError\<close>, which is caught, and no read of the scan is out
  of range. A frame whose length is not 12 yields nothing, and so does a 12-byte frame
  in which no offset of the scan is accepted. A 12-byte frame in which some offset is
  accepted yields the reading of the first accepted offset, also when later offsets are
  accepted with other readings.
\<close>

theorem decode_total_first_accepted:
  "(\<exists>res. parseScaleData now data = Inr res) \<and>
   (byteLength data = 12 \<longrightarrow> method1 now data = Inl RangeError) \<and>
   (k + 4 \<le> byteLength data \<longrightarrow> (\<exists>v. method2_at now data k = Inr v)) \<and>
   (byteLength data \<noteq> 12 \<longrightarrow> parseScaleData now data = Inr None) \<and>
   (byteLength data = 12 \<and> (\<forall>j\<le>8. \<forall>r'. method2_at now data j \<noteq> Inr (Some r'))
      \<longrightarrow> parseScaleData now data = Inr None) \<and>
   (byteLength data = 12 \<and> k \<le> 8 \<and> method2_at now data k = Inr (Some r) \<and>
    (\<forall>j<k. \<forall>r'. method2_at now data j \<noteq> Inr (Some r'))
      \<longrightarrow> parseScaleData now data = Inr (Some r))"
proof (intro conjI impI)
  show "\<exists>res. parseScaleData now data = Inr res"
    by (simp add: parseScaleData_scan)
next
  assume "byteLength data = 12"
  then show "method1 now data = Inl RangeError" by (rule method1_12)
next
  assume "k + 4 \<le> byteLength data"
  then show "\<exists>v. method2_at now data k = Inr v" by (rule method2_at_in_range)
next
  assume "byteLength data \<noteq> 12"
  then show "parseScaleData now data = Inr None" by (simp add: parseScaleData_scan)
next
  assume a: "byteLength data = 12 \<and> (\<forall>j\<le>8. \<forall>r'. method2_at now data j \<noteq> Inr (Some r'))"
  have "method2 now data 0 = None"
  proof (rule method2_None)
    fix j assume "j + 4 \<le> byteLength data"
    with a have "j \<le> 8" by simp
    with a have "\<forall>r'. method2_at now data j \<noteq> Inr (Some r')" by blast
    then show "try_catch (method2_at now data j) = None" by (rule not_Some_try_catch)
  qed
  with a show "parseScaleData now data = Inr None" by (simp add: parseScaleData_scan)
next
  assume a: "byteLength data = 12 \<and> k \<le> 8 \<and> method2_at now data k = Inr (Some r) \<and>
    (\<forall>j<k. \<forall>r'. method2_at now data j \<noteq> Inr (Some r'))"
  have "method2 now data 0 = Some r"
  proof (rule method2_first [of 0 k])
    show "0 \<le> k" by simp
    from a show "k + 4 \<le> byteLength data" by simp
    from a show "method2_at now data k = Inr (Some r)" by simp
    fix j assume "j < k"
    with a have "\<forall>r'. method2_at now data j \<noteq> Inr (Some r')" by blast
    then show "try_catch (method2_at now data j) = None" by (rule not_Some_try_catch)
  qed
  with a show "parseScaleData now data = Inr (Some r)" by (simp add: parseScaleData_scan)
qed

theorem decode_total_first_accepted_witness:
  "byteLength [0, 0, 0x05, 0x01, 0x01, 0x03, 0xE8, 0, 0x01, 0, 0, 0] = 12 \<and>
   method1 7 [0, 0, 0x05, 0x01, 0x01, 0x03, 0xE8, 0, 0x01, 0, 0, 0] = Inl RangeError \<and>
   method2_at 7 [0, 0, 0x05, 0x01, 0x01, 0x03, 0xE8, 0, 0x01, 0, 0, 0] 1 =
     Inr (Some \<lparr> weight = 5, unit = Oz, isStable = True, timestamp = 7 \<rparr>) \<and>
   parseScaleData 7 [0, 0, 0x05, 0x01, 0x01, 0x03, 0xE8, 0, 0x01, 0, 0, 0] =
     Inr (Some \<lparr> weight = 5, unit = Oz, isStable = True, timestamp = 7 \<rparr>) \<and>
   byteLength [0x27, 0x10, 255, 255, 255, 255, 255, 255, 255, 255, 255, 255] = 12 \<and>
   parseScaleData 7 [0x27, 0x10, 255, 255, 255, 255, 255, 255, 255, 255, 255, 255] = Inr None \<and>
   byteLength [0, 0, 0x05, 0x01, 0x01, 0x03, 0xE8, 0] \<noteq> 12 \<and>
   parseScaleData 7 [0, 0, 0x05, 0x01, 0x01, 0x03, 0xE8, 0] = Inr None"
proof -
  let ?a = "[0, 0, 0x05, 0x01, 0x01, 0x03, 0xE8, 0, 0x01, 0, 0, 0] :: DataView"
  let ?n = "[0x27, 0x10, 255, 255, 255, 255, 255, 255, 255, 255, 255, 255] :: DataView"
  let ?s = "[0, 0, 0x05, 0x01, 0x01, 0x03, 0xE8, 0] :: DataView"
  let ?r = "\<lparr> weight = 5, unit = Oz, isStable = True, timestamp = 7 \<rparr>"
  have la: "byteLength ?a = 12" and ln: "byteLength ?n = 12" and ls: "byteLength ?s \<noteq> 12"
    by (simp_all add: byteLength_def)
  have at1: "method2_at 7 ?a 1 = Inr (Some ?r)"
    by (simp add: decode_eval)
  have before: "\<forall>j<1. \<forall>r'. method2_at 7 ?a j \<noteq> Inr (Some r')"
    by (simp add: decode_eval)
  have none: "method2_at 7 ?n j \<noteq> Inr (Some r')" if "j \<le> 8" for j r'
  proof -
    from that consider "j = 0" | "j = 1" | "j = 2" | "j = 3" | "j = 4" | "j = 5"
      | "j = 6" | "j = 7" | "j = 8" by linarith
    then show ?thesis
      by cases (simp_all add: method2_at_def getUint16_def getUint8_def byteLength_def)
  qed
  from decode_total_first_accepted [of 7 ?a 1 ?r] la at1 before
  have c1: "method1 7 ?a = Inl RangeError" and c2: "parseScaleData 7 ?a = Inr (Some ?r)"
    by simp_all
  from decode_total_first_accepted [of 7 ?n 0] ln none
  have c3: "parseScaleData 7 ?n = Inr None" by blast
  from decode_total_first_accepted [of 7 ?s 0] ls
  have c4: "parseScaleData 7 ?s = Inr None" by blast
  from la ln ls at1 c1 c2 c3 c4 show ?thesis by blast
qed

text \<open>The frame \<open>00 00 05 01 01 03 e8 00 01 00 00 00\<close> is accepted at the offsets 1, 2
  and 8 of the scan, with three different readings; it decodes to the first of them,
  5 oz, not to nothing.\<close>

theorem ambiguous_frame_decodes_to_first:
  "parseScaleData 7 [0, 0, 0x05, 0x01, 0x01, 0x03, 0xE8, 0, 0x01, 0, 0, 0] =
     Inr (Some \<lparr> weight = 5, unit = Oz, isStable = True, timestamp = 7 \<rparr>) \<and>
   method2_at 7 [0, 0, 0x05, 0x01, 0x01, 0x03, 0xE8, 0, 0x01, 0, 0, 0] 1 =
     Inr (Some \<lparr> weight = 5, unit = Oz, isStable = True, timestamp = 7 \<rparr>) \<and>
   method2_at 7 [0, 0, 0x05, 0x01, 0x01, 0x03, 0xE8, 0, 0x01, 0, 0, 0] 2 =
     Inr (Some \<lparr> weight = 1281, unit = Oz, isStable = False, timestamp = 7 \<rparr>) \<and>
   method2_at 7 [0, 0, 0x05, 0x01, 0x01, 0x03, 0xE8, 0, 0x01, 0, 0, 0] 8 =
     Inr (Some \<lparr> weight = 256, unit = G, isStable = False, timestamp = 7 \<rparr>)"
  by (simp add: decode_eval)

subsection \<open>The bounds of the two strategies\<close>

text \<open>
  Claim C3, as the code has it. Strategy A rejects a raw magnitude of exactly 50000 and
  Strategy B rejects a raw 16-bit value of exactly 10000; a 12-byte frame in which no
  offset of the scan yields an accepted reading decodes to nothing. The bound on the
  resulting weight is closed: every weight Strategy B accepts is in \<open>(0, 5000]\<close>, and a
  weight of exactly 5000 is accepted.
\<close>

theorem magnitude_bounds:
  "(getUint16 data1 11 True = Inr 50000 \<longrightarrow> method1 now data1 = Inr None) \<and>
   (getUint16 data2 offset False = Inr 10000 \<longrightarrow> method2_at now data2 offset = Inr None) \<and>
   (byteLength data3 = 12 \<and> (\<forall>k\<le>8. \<forall>r. method2_at now data3 k \<noteq> Inr (Some r))
      \<longrightarrow> parseScaleData now data3 = Inr None) \<and>
   (method2_at now data4 offset4 = Inr (Some r4) \<longrightarrow> 0 < weight r4 \<and> weight r4 \<le> 5000) \<and>
   parseScaleData now [0x13, 0x88, 0, 1, 255, 255, 255, 255, 255, 255, 255, 255] =
     Inr (Some \<lparr> weight = 5000, unit = G, isStable = True, timestamp = now \<rparr>)"
proof (intro conjI impI)
  assume "getUint16 data1 11 True = Inr 50000"
  then show "method1 now data1 = Inr None"
    by (auto simp: method1_def getUint16_def getUint8_def split: if_splits sum.splits)
next
  assume "getUint16 data2 offset False = Inr 10000"
  then show "method2_at now data2 offset = Inr None"
    by (simp add: method2_at_def getUint8_def)
next
  assume a: "byteLength data3 = 12 \<and> (\<forall>k\<le>8. \<forall>r. method2_at now data3 k \<noteq> Inr (Some r))"
  have "method2 now data3 0 = None"
  proof (rule method2_None)
    fix k assume "k + 4 \<le> byteLength data3"
    with a have "k \<le> 8" by simp
    with a have "\<forall>r. method2_at now data3 k \<noteq> Inr (Some r)" by blast
    then show "try_catch (method2_at now data3 k) = None"
      by (auto simp: try_catch_def split: sum.splits)
  qed
  with a show "parseScaleData now data3 = Inr None" by (simp add: parseScaleData_scan)
next
  assume "method2_at now data4 offset4 = Inr (Some r4)"
  from method2_at_Some [OF this] show "0 < weight r4" "weight r4 \<le> 5000" by simp_all
next
  show "parseScaleData now [0x13, 0x88, 0, 1, 255, 255, 255, 255, 255, 255, 255, 255] =
     Inr (Some \<lparr> weight = 5000, unit = G, isStable = True, timestamp = now \<rparr>)"
    by (simp add: decode_eval)
qed

theorem magnitude_bounds_witness:
  "getUint16 [0, 0, 0, 0, 0, 0, 0, 0, 0, 0, 0, 0x50, 0xC3] 11 True = Inr 50000 \<and>
   method1 7 [0, 0, 0, 0, 0, 0, 0, 0, 0, 0, 0, 0x50, 0xC3] = Inr None \<and>
   getUint16 [0x27, 0x10, 255, 255, 255, 255, 255, 255, 255, 255, 255, 255] 0 False = Inr 10000 \<and>
   method2_at 7 [0x27, 0x10, 255, 255, 255, 255, 255, 255, 255, 255, 255, 255] 0 = Inr None \<and>
   byteLength [0x27, 0x10, 255, 255, 255, 255, 255, 255, 255, 255, 255, 255] = 12 \<and>
   parseScaleData 7 [0x27, 0x10, 255, 255, 255, 255, 255, 255, 255, 255, 255, 255] = Inr None \<and>
   method2_at 7 [0x13, 0x88, 0, 1, 255, 255, 255, 255, 255, 255, 255, 255] 0 =
     Inr (Some \<lparr> weight = 5000, unit = G, isStable = True, timestamp = 7 \<rparr>) \<and>
   0 < weight \<lparr> weight = 5000, unit = G, isStable = True, timestamp = 7 \<rparr> \<and>
   weight \<lparr> weight = 5000, unit = G, isStable = True, timestamp = 7 \<rparr> \<le> 5000"
proof -
  let ?d1 = "[0, 0, 0, 0, 0, 0, 0, 0, 0, 0, 0, 0x50, 0xC3] :: DataView"
  let ?d2 = "[0x27, 0x10, 255, 255, 255, 255, 255, 255, 255, 255, 255, 255] :: DataView"
  let ?d4 = "[0x13, 0x88, 0, 1, 255, 255, 255, 255, 255, 255, 255, 255] :: DataView"
  let ?r4 = "\<lparr> weight = 5000, unit = G, isStable = True, timestamp = 7 \<rparr>"
  have h1: "getUint16 ?d1 11 True = Inr 50000"
    by (simp add: getUint16_def byteLength_def)
  have h2: "getUint16 ?d2 0 False = Inr 10000"
    by (simp add: getUint16_def byteLength_def)
  have len: "byteLength ?d2 = 12"
    by (simp add: byteLength_def)
  have none: "method2_at 7 ?d2 k \<noteq> Inr (Some r)" if "k \<le> 8" for k r
  proof -
    from that consider "k = 0" | "k = 1" | "k = 2" | "k = 3" | "k = 4" | "k = 5"
      | "k = 6" | "k = 7" | "k = 8" by linarith
    then show ?thesis
      by cases (simp_all add: method2_at_def getUint16_def getUint8_def byteLength_def)
  qed
  have h4: "method2_at 7 ?d4 0 = Inr (Some ?r4)"
    by (simp add: method2_at_def getUint16_def getUint8_def byteLength_def unitOf_def UNIT_MAP_def)
  note mb = magnitude_bounds [where ?data1.0 = ?d1 and ?data2.0 = ?d2 and offset = 0
      and ?data3.0 = ?d2 and ?data4.0 = ?d4 and ?offset4.0 = 0 and ?r4.0 = ?r4 and now = 7]
  from mb h1 have c1: "method1 7 ?d1 = Inr None" by blast
  from mb h2 have c2: "method2_at 7 ?d2 0 = Inr None" by blast
  from mb len none have c3: "parseScaleData 7 ?d2 = Inr None" by blast
  from mb h4 have c4: "0 < weight ?r4 \<and> weight ?r4 \<le> 5000" by blast
  from h1 h2 len h4 c1 c2 c3 c4 show ?thesis by blast
qed

text \<open>The frame \<open>13 88 00 01 ff .. ff\<close> carries 5000 at offset 0 with unit code 0; no
  other offset of the scan accepts anything, and the frame decodes to 5000 g.\<close>

theorem weight_5000_accepted:
  "parseScaleData 7 [0x13, 0x88, 0, 1, 255, 255, 255, 255, 255, 255, 255, 255] =
     Inr (Some \<lparr> weight = 5000, unit = G, isStable = True, timestamp = 7 \<rparr>) \<and>
   map (method2_at 7 [0x13, 0x88, 0, 1, 255, 255, 255, 255, 255, 255, 255, 255])
     [1, 2, 3, 4, 5, 6, 7, 8] =
     [Inr None, Inr None, Inr None, Inr None, Inr None, Inr None, Inr None, Inr None]"
  by (simp add: decode_eval)

subsection \<open>Frames of other lengths\<close>

text \<open>
  Claim C4. Every frame whose length is not 12 decodes to nothing: the frames of length
  8 and those of any other length.
\<close>

theorem other_lengths_decode_to_nothing:
  "byteLength data \<noteq> 12 \<Longrightarrow> parseScaleData now data = Inr None"
  by (simp add: parseScaleData_scan)

theorem other_lengths_decode_to_nothing_witness:
  "byteLength [0x13, 0x88, 0, 1, 0, 0, 0, 0] \<noteq> 12 \<and>
   parseScaleData 7 [0x13, 0x88, 0, 1, 0, 0, 0, 0] = Inr None \<and>
   byteLength [0x13, 0x88, 0, 1, 0, 0, 0, 0, 0, 0, 0, 0, 0] \<noteq> 12 \<and>
   parseScaleData 7 [0x13, 0x88, 0, 1, 0, 0, 0, 0, 0, 0, 0, 0, 0] = Inr None"
proof -
  have h8: "byteLength [0x13, 0x88, 0, 1, 0, 0, 0, 0 :: byte] \<noteq> 12"
    by (simp add: byteLength_def)
  have h13: "byteLength [0x13, 0x88, 0, 1, 0, 0, 0, 0, 0, 0, 0, 0, 0 :: byte] \<noteq> 12"
    by (simp add: byteLength_def)
  from h8 h13 other_lengths_decode_to_nothing [OF h8, of 7]
    other_lengths_decode_to_nothing [OF h13, of 7]
  show ?thesis by blast
qed

subsection \<open>Decoding the same bytes twice\<close>

text \<open>
  Claim C5, as the code has it. Two calls on the same bytes both return nothing, or both
  return a reading with the same weight, unit and stability; the timestamp of each is the
  clock value of its own call, so the two readings are identical exactly when the clock
  did not advance between the calls.
\<close>

theorem decode_deterministic_up_to_clock:
  "(parseScaleData now data = Inr None \<and> parseScaleData now' data = Inr None) \<or>
   (\<exists>r r'. parseScaleData now data = Inr (Some r) \<and> parseScaleData now' data = Inr (Some r') \<and>
       weight r' = weight r \<and> unit r' = unit r \<and> isStable r' = isStable r \<and>
       timestamp r = now \<and> timestamp r' = now')"
proof (cases "byteLength data = 12")
  case False
  then show ?thesis by (simp add: parseScaleData_scan)
next
  case True
  show ?thesis
  proof (cases "method2 now data 0")
    case None
    with True method2_clock [of now' data 0 now] show ?thesis
      by (simp add: parseScaleData_scan)
  next
    case (Some r)
    with True method2_clock [of now' data 0 now] method2_timestamp [of now data 0 r]
    show ?thesis
      by (simp add: parseScaleData_scan)
  qed
qed

theorem decode_twice_differs_in_timestamp:
  "parseScaleData 1 [0x13, 0x88, 0, 1, 0, 0, 0, 0, 0, 0, 0, 0] \<noteq>
   parseScaleData 2 [0x13, 0x88, 0, 1, 0, 0, 0, 0, 0, 0, 0, 0]"
  by (simp add: decode_eval)

subsection \<open>What a decoded reading can be\<close>

text \<open>
  Claim C9. On a 12-byte frame Method 1 always ends in the \<open>RangeError\<close> of its 16-bit
  read at offset 11, so a reading can only come from the scan. Whenever the decoder
  returns a reading, its weight lies in \<open>(0, 5000]\<close> and its unit is g, oz, ml or fl oz,
  never lb or kg.
\<close>

theorem decoded_reading_range:
  "parseScaleData now data = Inr (Some r) \<Longrightarrow>
     method1 now data = Inl RangeError \<and> method2 now data 0 = Some r \<and>
     0 < weight r \<and> weight r \<le> 5000 \<and>
     unit r \<in> {G, Oz, Ml, FlOz} \<and> unit r \<noteq> Lb \<and> unit r \<noteq> Kg"
proof -
  assume a: "parseScaleData now data = Inr (Some r)"
  then have len: "byteLength data = 12" and scan: "method2 now data 0 = Some r"
    by (auto simp: parseScaleData_scan split: if_splits)
  from method2_Some [OF scan] obtain k where "method2_at now data k = Inr (Some r)" by blast
  from method2_at_Some [OF this] method1_12 [OF len] scan show ?thesis by auto
qed

theorem decoded_reading_range_witness:
  "parseScaleData 7 [0, 0x01, 0xF4, 4, 1, 0, 0, 0, 0, 0, 0, 0] =
     Inr (Some \<lparr> weight = 50, unit = Ml, isStable = True, timestamp = 7 \<rparr>) \<and>
   method1 7 [0, 0x01, 0xF4, 4, 1, 0, 0, 0, 0, 0, 0, 0] = Inl RangeError \<and>
   0 < weight \<lparr> weight = 50, unit = Ml, isStable = True, timestamp = 7 \<rparr> \<and>
   weight \<lparr> weight = 50, unit = Ml, isStable = True, timestamp = 7 \<rparr> \<le> 5000 \<and>
   unit \<lparr> weight = 50, unit = Ml, isStable = True, timestamp = 7 \<rparr> \<in> {G, Oz, Ml, FlOz}"
proof -
  have h: "parseScaleData 7 [0, 0x01, 0xF4, 4, 1, 0, 0, 0, 0, 0, 0, 0] =
     Inr (Some \<lparr> weight = 50, unit = Ml, isStable = True, timestamp = 7 \<rparr>)"
    by (simp add: decode_eval)
  from decoded_reading_range [OF h] h show ?thesis by blast
qed

section \<open>Properties of the unit conversion\<close>

lemma jsTimes_NaN_right: "jsTimes x NaN = NaN"
  by (cases x) simp_all

lemma fluid_not_in_tables:
  "u \<in> {''ml'', ''fl oz''} \<Longrightarrow> toNumber (toGrams u) = NaN \<and> toNumber (fromGrams u) = NaN"
  by (auto simp: toNumber_def toGrams_def fromGrams_def)

lemma scaled_NaN: "scaled v NaN = NaN"
  by (simp add: scaled_def jsTimes_NaN_right mathRound_def divideBy_def)

lemma scaledOpt_NaN: "scaledOpt v NaN = (if truthy v then Some NaN else None)"
  by (simp add: scaledOpt_def scaled_NaN truthy_def split: option.splits)

lemma unitString_fluid: "u \<in> {Ml, FlOz} \<Longrightarrow> unitString u \<in> {''ml'', ''fl oz''} \<and> unitString u \<noteq> ''g''"
  by (auto simp: unitString_def)

lemma calculateNutritionForWeight_NaN:
  "calculateNutritionForWeight b i NaN =
     \<lparr> ingredient = i, weight = NaN, unit = ''g'', calories = NaN, protein = NaN, carbs = NaN,
       fat = NaN,
       fiber = (if truthy (PartialNutritionData.fiber b) then Some NaN else None),
       sugar = (if truthy (PartialNutritionData.sugar b) then Some NaN else None),
       sodium = (if truthy (PartialNutritionData.sodium b) then Some NaN else None),
       calcium = (if truthy (PartialNutritionData.calcium b) then Some NaN else None),
       iron = (if truthy (PartialNutritionData.iron b) then Some NaN else None),
       vitaminC = (if truthy (PartialNutritionData.vitaminC b) then Some NaN else None) \<rparr>"
  by (simp add: calculateNutritionForWeight_def divideBy_def scaled_NaN scaledOpt_NaN
        jsTimes_NaN_right mathRound_def)

text \<open>
  Claim C10. Converting a weight to its own unit returns the weight. For two distinct
  units of which one is ml or fl oz the tables have no entry and the result is \<open>NaN\<close>.
  A decoded reading can carry these units; \<open>getNutritionData\<close> called with the weight and
  unit of such a reading converts to a \<open>NaN\<close> gram weight and computes the nutrition
  values from it: the weight, calories, protein, carbs and fat of the result are \<open>NaN\<close>.
\<close>

theorem convertWeight_fluid_units:
  "convertWeight w u u = w \<and>
   (u1 \<noteq> u2 \<and> (u1 \<in> {''ml'', ''fl oz''} \<or> u2 \<in> {''ml'', ''fl oz''})
      \<longrightarrow> convertWeight w u1 u2 = NaN) \<and>
   (unit r \<in> {Ml, FlOz} \<longrightarrow>
      convertWeight (Num (weight r)) (unitString (unit r)) ''g'' = NaN \<and>
      getNutritionData m i (Num (weight r)) (unitString (unit r)) =
        calculateNutritionForWeight (m i) i NaN \<and>
      NutritionData.weight (getNutritionData m i (Num (weight r)) (unitString (unit r))) = NaN \<and>
      NutritionData.calories (getNutritionData m i (Num (weight r)) (unitString (unit r))) = NaN \<and>
      NutritionData.protein (getNutritionData m i (Num (weight r)) (unitString (unit r))) = NaN \<and>
      NutritionData.carbs (getNutritionData m i (Num (weight r)) (unitString (unit r))) = NaN \<and>
      NutritionData.fat (getNutritionData m i (Num (weight r)) (unitString (unit r))) = NaN)"
proof (intro conjI impI)
  show "convertWeight w u u = w" by (simp add: convertWeight_def)
next
  assume a: "u1 \<noteq> u2 \<and> (u1 \<in> {''ml'', ''fl oz''} \<or> u2 \<in> {''ml'', ''fl oz''})"
  then consider "u1 \<in> {''ml'', ''fl oz''}" | "u2 \<in> {''ml'', ''fl oz''}" by blast
  then show "convertWeight w u1 u2 = NaN"
  proof cases
    case 1
    from fluid_not_in_tables [OF this] a show ?thesis
      by (simp add: convertWeight_def jsTimes_NaN_right)
  next
    case 2
    from fluid_not_in_tables [OF this] a show ?thesis
      by (simp add: convertWeight_def jsTimes_NaN_right)
  qed
next
  assume a: "unit r \<in> {Ml, FlOz}"
  from unitString_fluid [OF a] fluid_not_in_tables [of "unitString (unit r)"]
  show g: "convertWeight (Num (weight r)) (unitString (unit r)) ''g'' = NaN"
    by (simp add: convertWeight_def)
  then show n: "getNutritionData m i (Num (weight r)) (unitString (unit r)) =
        calculateNutritionForWeight (m i) i NaN"
    by (simp add: getNutritionData_def)
  show "NutritionData.weight (getNutritionData m i (Num (weight r)) (unitString (unit r))) = NaN"
    "NutritionData.calories (getNutritionData m i (Num (weight r)) (unitString (unit r))) = NaN"
    "NutritionData.protein (getNutritionData m i (Num (weight r)) (unitString (unit r))) = NaN"
    "NutritionData.carbs (getNutritionData m i (Num (weight r)) (unitString (unit r))) = NaN"
    "NutritionData.fat (getNutritionData m i (Num (weight r)) (unitString (unit r))) = NaN"
    by (simp_all add: n calculateNutritionForWeight_NaN)
qed

theorem convertWeight_fluid_units_witness:
  "''ml'' \<noteq> ''g'' \<and> convertWeight (Num 250) ''ml'' ''g'' = NaN \<and>
   convertWeight (Num 250) ''oz'' ''fl oz'' = NaN \<and>
   convertWeight (Num 250) ''oz'' ''oz'' = Num 250 \<and>
   unit \<lparr> weight = 50, unit = Ml, isStable = True, timestamp = 7 \<rparr> \<in> {Ml, FlOz} \<and>
   NutritionData.calories (getNutritionData (\<lambda>n. \<lparr> PartialNutritionData.calories = Some (Num 42),
       protein = Some (Num (34 / 10)), carbs = Some (Num 5), fat = Some (Num 1),
       fiber = Some (Num 0), sugar = None, sodium = Some (Num 44), calcium = Some (Num 113),
       iron = None, vitaminC = None \<rparr>) ''milk'' (Num 50) ''ml'') = NaN"
proof -
  let ?r = "\<lparr> weight = 50, unit = Ml, isStable = True, timestamp = 7 \<rparr>"
  let ?m = "\<lambda>n :: string. \<lparr> PartialNutritionData.calories = Some (Num 42),
       protein = Some (Num (34 / 10)), carbs = Some (Num 5), fat = Some (Num 1),
       fiber = Some (Num 0), sugar = None, sodium = Some (Num 44), calcium = Some (Num 113),
       iron = None, vitaminC = None \<rparr>"
  have h1: "''ml'' \<noteq> ''g'' \<and> (''ml'' \<in> {''ml'', ''fl oz''} \<or> ''g'' \<in> {''ml'', ''fl oz''})" by simp
  have h2: "''oz'' \<noteq> ''fl oz'' \<and> (''oz'' \<in> {''ml'', ''fl oz''} \<or> ''fl oz'' \<in> {''ml'', ''fl oz''})" by simp
  have h3: "unit ?r \<in> {Ml, FlOz}" by simp
  have s: "unitString (unit ?r) = ''ml''" "weight ?r = 50" by (simp_all add: unitString_def)
  note a = convertWeight_fluid_units [of "Num 250" "''oz''" "''ml''" "''g''" ?r ?m "''milk''"]
  note b = convertWeight_fluid_units [of "Num 250" "''oz''" "''oz''" "''fl oz''" ?r ?m "''milk''"]
  from a h1 have c1: "convertWeight (Num 250) ''ml'' ''g'' = NaN" by blast
  from b h2 have c2: "convertWeight (Num 250) ''oz'' ''fl oz'' = NaN" by blast
  from a have c3: "convertWeight (Num 250) ''oz'' ''oz'' = Num 250" by blast
  from a h3 have "NutritionData.calories (getNutritionData ?m ''milk'' (Num (weight ?r)) (unitString (unit ?r))) = NaN"
    by blast
  then have c4: "NutritionData.calories (getNutritionData ?m ''milk'' (Num 50) ''ml'') = NaN"
    by (simp only: s)
  from h1 h3 c1 c2 c3 c4 show ?thesis by blast
qed

section \<open>Properties of the ScaleConnector component\<close>

subsection \<open>Auxiliary facts\<close>

lemmas component_eval =
  onClick_def connectToScaleDevice_def connectFailed_def initialState_def called_def
  addEventListener_def removeEventListener_def disconnect_def gattserverdisconnected_def
  characteristicvaluechanged_def handleCharacteristicValueChanged_def observe_def Let_def






lemma disconnect_cleared:
  "device (fst (disconnect sw)) = None \<and> characteristic (fst (disconnect sw)) = None \<and>
   connectionState (fst (disconnect sw)) = Disconnected \<and>
   currentReading (fst (disconnect sw)) = None \<and> error (fst (disconnect sw)) = None"
  by (simp add: disconnect_def Let_def)

lemma disconnect_when_cleared:
  "device (fst sw) = None \<Longrightarrow> characteristic (fst sw) = None \<Longrightarrow>
   connectionState (fst sw) = Disconnected \<Longrightarrow> currentReading (fst sw) = None \<Longrightarrow>
   error (fst sw) = None \<Longrightarrow> disconnect sw = sw"
  by (cases sw) (simp add: disconnect_def Let_def)







text \<open>What one run of the handler does, relative to the \<open>lastStableReading\<close> its closure
  captured: the displayed reading is always replaced; \<open>onStableReading\<close> is called exactly
  when the reading is stable and differs in weight or unit from the captured one.\<close>

lemma observe_effect:
  "currentReading (fst (observe captured r sw)) = Some r \<and>
   stableReadings (snd (observe captured r sw)) =
     (if isStable r \<and> (case captured of None \<Rightarrow> True
                        | Some l \<Rightarrow> weight l \<noteq> weight r \<or> unit l \<noteq> unit r)
      then stableReadings (snd sw) @ [r] else stableReadings (snd sw))"
  by (simp add: observe_def Let_def)

subsection \<open>Stable readings and the registered listener\<close>

text \<open>
  Claim C6. Two consecutive stable readings with the same weight and unit should call
  \<open>onStableReading\<close> once, and a third with another weight a second time. The listener
  that \<open>connectToScaleDevice\<close> registers is the handler of the render in which the button
  was clicked; \<open>setLastStableReading\<close> makes later renders build a new handler, but the
  registered one is never replaced, so every notification is compared with the
  \<open>lastStableReading\<close> of the time of the click. On a fresh component that is \<open>null\<close>:
  after connecting, the frames for 1000 g, 1000 g and 1001 g (all stable) call
  \<open>onStableReading\<close> three times; the registered closure still holds \<open>null\<close> although the
  state holds the 1000 g reading after the first frame.
\<close>

theorem stale_listener_repeats_notification:
  "map weight (stableReadings (snd (fold step
      [Click \<lparr> bluetoothSupported = True, requestDevice = Resolved 1, gattConnect = Resolved (),
        getPrimaryService = Resolved (), getCharacteristic = Resolved 2,
        startNotifications = Resolved () \<rparr>,
       Notification 1 (Some [0x03, 0xE8, 0, 1, 255, 255, 255, 255, 255, 255, 255, 255]),
       Notification 2 (Some [0x03, 0xE8, 0, 1, 255, 255, 255, 255, 255, 255, 255, 255]),
       Notification 3 (Some [0x03, 0xE9, 0, 1, 255, 255, 255, 255, 255, 255, 255, 255])]
      (initialState, \<lparr> gattConnected = False, listeners = [], calls = [], stableReadings = [] \<rparr>)))) = [1000, 1000, 1001] \<and>
   listeners (snd (fold step
      [Click \<lparr> bluetoothSupported = True, requestDevice = Resolved 1, gattConnect = Resolved (),
        getPrimaryService = Resolved (), getCharacteristic = Resolved 2,
        startNotifications = Resolved () \<rparr>,
       Notification 1 (Some [0x03, 0xE8, 0, 1, 255, 255, 255, 255, 255, 255, 255, 255]),
       Notification 2 (Some [0x03, 0xE8, 0, 1, 255, 255, 255, 255, 255, 255, 255, 255])]
      (initialState, \<lparr> gattConnected = False, listeners = [], calls = [], stableReadings = [] \<rparr>))) = [None] \<and>
   map_option weight (lastStableReading (fst (fold step
      [Click \<lparr> bluetoothSupported = True, requestDevice = Resolved 1, gattConnect = Resolved (),
        getPrimaryService = Resolved (), getCharacteristic = Resolved 2,
        startNotifications = Resolved () \<rparr>,
       Notification 1 (Some [0x03, 0xE8, 0, 1, 255, 255, 255, 255, 255, 255, 255, 255])]
      (initialState, \<lparr> gattConnected = False, listeners = [], calls = [], stableReadings = [] \<rparr>)))) = Some 1000"
  by (simp add: component_eval decode_eval)

subsection \<open>Disconnecting twice\<close>

text \<open>
  Claim C7. A second \<open>disconnect\<close>, called once the first has completed (through the
  function of the render that follows it), changes neither the state nor the world: the
  state stays disconnected and no listener removal or link close is invoked again. The
  \<open>gattserverdisconnected\<close> callback after a completed \<open>disconnect\<close> leaves the state as it
  is and invokes nothing. The first \<open>disconnect\<close> of a connected session does invoke
  both teardown calls.
\<close>

theorem disconnect_idempotent:
  "disconnect (disconnect sw) = disconnect sw \<and>
   connectionState (fst (disconnect sw)) = Disconnected \<and>
   calls (snd (disconnect (disconnect sw))) = calls (snd (disconnect sw)) \<and>
   fst (step LinkLost (disconnect sw)) = fst (disconnect sw) \<and>
   calls (snd (step LinkLost (disconnect sw))) = calls (snd (disconnect sw)) \<and>
   (characteristic (fst sw) \<noteq> None \<and> device (fst sw) \<noteq> None \<and> gattConnected (snd sw) \<longrightarrow>
      calls (snd (disconnect sw)) = calls (snd sw) @ [RemoveValueListener, GattDisconnect])"
proof -
  have idem: "disconnect (disconnect sw) = disconnect sw"
    using disconnect_cleared [of sw] by (intro disconnect_when_cleared) simp_all
  have ll: "fst (step LinkLost (disconnect sw)) = fst (disconnect sw)"
    using disconnect_cleared [of sw] by (simp add: gattserverdisconnected_def)
  have first: "calls (snd (disconnect sw)) = calls (snd sw) @ [RemoveValueListener, GattDisconnect]"
    if "characteristic (fst sw) \<noteq> None \<and> device (fst sw) \<noteq> None \<and> gattConnected (snd sw)"
    using that by (simp add: disconnect_def Let_def removeEventListener_def called_def)
  from idem ll first disconnect_cleared [of sw] show ?thesis by simp
qed

theorem disconnect_idempotent_witness:
  "characteristic (fst (step (Click \<lparr> bluetoothSupported = True, requestDevice = Resolved 1, gattConnect = Resolved (),
        getPrimaryService = Resolved (), getCharacteristic = Resolved 2,
        startNotifications = Resolved () \<rparr>) (initialState, \<lparr> gattConnected = False, listeners = [], calls = [], stableReadings = [] \<rparr>))) \<noteq> None \<and>
   device (fst (step (Click \<lparr> bluetoothSupported = True, requestDevice = Resolved 1, gattConnect = Resolved (),
        getPrimaryService = Resolved (), getCharacteristic = Resolved 2,
        startNotifications = Resolved () \<rparr>) (initialState, \<lparr> gattConnected = False, listeners = [], calls = [], stableReadings = [] \<rparr>))) \<noteq> None \<and>
   gattConnected (snd (step (Click \<lparr> bluetoothSupported = True, requestDevice = Resolved 1, gattConnect = Resolved (),
        getPrimaryService = Resolved (), getCharacteristic = Resolved 2,
        startNotifications = Resolved () \<rparr>) (initialState, \<lparr> gattConnected = False, listeners = [], calls = [], stableReadings = [] \<rparr>))) \<and>
   calls (snd (disconnect (step (Click \<lparr> bluetoothSupported = True, requestDevice = Resolved 1, gattConnect = Resolved (),
        getPrimaryService = Resolved (), getCharacteristic = Resolved 2,
        startNotifications = Resolved () \<rparr>) (initialState, \<lparr> gattConnected = False, listeners = [], calls = [], stableReadings = [] \<rparr>)))) =
     [RequestDevice, GattConnect, GetPrimaryService, GetCharacteristic,
      StartNotifications, AddValueListener, AddDisconnectListener,
      RemoveValueListener, GattDisconnect] \<and>
   calls (snd (disconnect (disconnect (step (Click \<lparr> bluetoothSupported = True, requestDevice = Resolved 1, gattConnect = Resolved (),
        getPrimaryService = Resolved (), getCharacteristic = Resolved 2,
        startNotifications = Resolved () \<rparr>) (initialState, \<lparr> gattConnected = False, listeners = [], calls = [], stableReadings = [] \<rparr>))))) =
     [RequestDevice, GattConnect, GetPrimaryService, GetCharacteristic,
      StartNotifications, AddValueListener, AddDisconnectListener,
      RemoveValueListener, GattDisconnect]"
proof -
  let ?sw = "step (Click \<lparr> bluetoothSupported = True, requestDevice = Resolved 1, gattConnect = Resolved (),
        getPrimaryService = Resolved (), getCharacteristic = Resolved 2,
        startNotifications = Resolved () \<rparr>) (initialState, \<lparr> gattConnected = False, listeners = [], calls = [], stableReadings = [] \<rparr>)"
  have h: "characteristic (fst ?sw) \<noteq> None \<and> device (fst ?sw) \<noteq> None \<and> gattConnected (snd ?sw)"
    by (simp add: component_eval)
  have c: "calls (snd ?sw) = [RequestDevice, GattConnect, GetPrimaryService, GetCharacteristic,
      StartNotifications, AddValueListener, AddDisconnectListener]"
    by (simp add: component_eval)
  from disconnect_idempotent [of ?sw] h
  have "calls (snd (disconnect ?sw)) = calls (snd ?sw) @ [RemoveValueListener, GattDisconnect]"
    and "calls (snd (disconnect (disconnect ?sw))) = calls (snd (disconnect ?sw))" by blast+
  with c h show ?thesis by simp
qed

subsection \<open>Connecting outside the disconnected and error states\<close>




end
